theory Spec2Isabelle
  imports Main
begin

section \<open>Time\<close>

text \<open>
  \<^verbatim>\<open>time.Duration\<close> is a count of nanoseconds; an instant of \<^verbatim>\<open>time.Time\<close> is
  modelled as a position in nanoseconds on one time line. \<^verbatim>\<open>t.Sub(u)\<close> saturates at the
  largest and smallest duration, and \<^verbatim>\<open>time.Since(t)\<close> is \<^verbatim>\<open>time.Now().Sub(t)\<close>.
\<close>

type_synonym duration = int
type_synonym instant = int

definition Second :: duration where
  "Second = 1000000000"

definition maxDuration :: duration where
  "maxDuration = 2 ^ 63 - 1"

definition minDuration :: duration where
  "minDuration = - (2 ^ 63)"

definition Sub :: "instant \<Rightarrow> instant \<Rightarrow> duration" where
  "Sub t u =
     (let d = t - u in
      if d > maxDuration then maxDuration
      else if d < minDuration then minDuration
      else d)"

text \<open>The zero value of \<^verbatim>\<open>time.Time\<close> (1 January of year 1), on the Unix time line.\<close>

definition zeroTime :: instant where
  "zeroTime = - 62135596800 * Second"

section \<open>Errors\<close>

text \<open>
  An error of the driver or of the ORM is identified with its \<^verbatim>\<open>Error()\<close> text.
\<close>

text \<open>
  Modelled from the spec: the package \<^verbatim>\<open>internal/errors\<close>, which declares \<^verbatim>\<open>AppError\<close>
  and its error types, is not among the sources. The README lists the types and the
  fields; the datatype keeps the fields that \<^verbatim>\<open>manager.go\<close> sets: type, message, cause,
  operation, resource and context.
\<close>

datatype ErrorType =
    ErrorTypeValidation | ErrorTypeNotFound | ErrorTypeUnauthorized | ErrorTypeForbidden
  | ErrorTypeConflict | ErrorTypeInternal | ErrorTypeExternal | ErrorTypeDatabase
  | ErrorTypeCache | ErrorTypeTimeout

datatype error =
    LibError string
  | AppError ErrorType string "error option" string string "(string \<times> int) list"

fun Type :: "error \<Rightarrow> ErrorType option" where
  "Type (LibError _) = None"
| "Type (AppError t _ _ _ _ _) = Some t"

fun Message :: "error \<Rightarrow> string" where
  "Message (LibError s) = s"
| "Message (AppError _ m _ _ _ _) = m"

fun Cause :: "error \<Rightarrow> error option" where
  "Cause (LibError _) = None"
| "Cause (AppError _ _ c _ _ _) = c"

text \<open>
  Modelled from the spec: \<^verbatim>\<open>errors.DatabaseError(msg, cause)\<close> is not among the sources;
  the README and its callers use it as the constructor of an \<^verbatim>\<open>AppError\<close> of type
  \<^verbatim>\<open>ErrorTypeDatabase\<close> around a cause.
\<close>

definition DatabaseError :: "string \<Rightarrow> error option \<Rightarrow> error" where
  "DatabaseError msg cause = AppError ErrorTypeDatabase msg cause [] [] []"

text \<open>
  Modelled from the spec: the setter \<^verbatim>\<open>WithOperation\<close> is not among the sources; it
  fills the operation of an \<^verbatim>\<open>AppError\<close>.
\<close>

fun WithOperation :: "string \<Rightarrow> error \<Rightarrow> error" where
  "WithOperation op (AppError t m c _ r x) = AppError t m c op r x"
| "WithOperation op e = e"

text \<open>
  Modelled from the spec: the setter \<^verbatim>\<open>WithResource\<close> is not among the sources; it
  fills the resource of an \<^verbatim>\<open>AppError\<close>.
\<close>

fun WithResource :: "string \<Rightarrow> error \<Rightarrow> error" where
  "WithResource r (AppError t m c op _ x) = AppError t m c op r x"
| "WithResource r e = e"

text \<open>
  Modelled from the spec: the setter \<^verbatim>\<open>WithContext\<close> is not among the sources; it
  adds one entry to the context of an \<^verbatim>\<open>AppError\<close>.
\<close>

fun WithContext :: "string \<Rightarrow> int \<Rightarrow> error \<Rightarrow> error" where
  "WithContext k v (AppError t m c op r x) = AppError t m c op r (x @ [(k, v)])"
| "WithContext k v e = e"

text \<open>A panic ends the call with no result.\<close>

datatype panic = NilPointerDereference

section \<open>Data model\<close>

text \<open>
  The package \<^verbatim>\<open>internal/config\<close> is not among the sources; the record has the fields
  of \<^verbatim>\<open>config.Config\<close> that \<^verbatim>\<open>manager.go\<close> reads, with the types it uses them at.
\<close>

record Config =
  DatabaseMaxOpenConns :: int
  DatabaseMaxIdleConns :: int
  DatabaseConnMaxLifetime :: duration
  DatabaseConnMaxIdleTime :: duration
  DatabaseConnectTimeout :: duration
  DatabaseHealthTimeout :: duration
  DatabaseRetryAttempts :: int
  DatabaseRetryDelay :: duration

record HealthStatus =
  IsHealthy :: bool
  LastCheck :: instant
  LastError :: string
  ResponseTime :: duration
  RetryCount :: int

record ConnectionMetrics =
  TotalConnections :: int
  OpenConnections :: int
  IdleConnections :: int
  InUseConnections :: int
  WaitCount :: int
  WaitDuration :: duration
  MaxOpenConnections :: int
  MaxIdleConnections :: int

text \<open>The fields of \<^verbatim>\<open>sql.DBStats\<close> that \<^verbatim>\<open>updateMetrics\<close> copies.\<close>

record DBStats =
  stats_OpenConnections :: int
  stats_Idle :: int
  stats_InUse :: int
  stats_WaitCount :: int
  stats_WaitDuration :: duration

text \<open>
  A pool (\<^verbatim>\<open>*sql.DB\<close>) is named by a number. A \<^verbatim>\<open>*gorm.DB\<close> is characterised by
  what its accessor \<^verbatim>\<open>DB()\<close> answers: an error text or the pool.
\<close>

type_synonym sql_db = nat

datatype gorm_DB = GormDB "string + sql_db"

fun DB :: "gorm_DB \<Rightarrow> string + sql_db" where
  "DB (GormDB r) = r"

text \<open>
  The manager. \<^verbatim>\<open>db\<close> is \<^verbatim>\<open>nil\<close> until a connection attempt succeeds. \<^verbatim>\<open>config\<close> and
  \<^verbatim>\<open>metrics\<close> are pointers that \<^verbatim>\<open>NewDatabaseManager\<close> sets to allocated structures and
  nothing reassigns; the record holds what they point to. The lock \<^verbatim>\<open>mu\<close> shows in
  the trace of the world below.
\<close>

record DatabaseManager =
  db :: "gorm_DB option"
  config :: Config
  healthStatus :: HealthStatus
  metrics :: ConnectionMetrics

section \<open>The world outside the manager\<close>

text \<open>
  Everything the manager does to its surroundings is appended to a trace: calls of the
  driver, sleeps, operations on the lock \<^verbatim>\<open>mu\<close>, stores into the two shared structures
  and the start of goroutines. Logging and the report to Sentry change nothing the
  manager reads and are not traced (\<^verbatim>\<open>sentry.GetHubFromContext\<close> is asked with
  \<^verbatim>\<open>context.Background()\<close>). The clock moves while the code is blocked in the driver or
  asleep; the time a blocking call takes is a natural number of nanoseconds. In
  \<^verbatim>\<open>HealthCheck\<close>, which measures time, the clock also moves while the code itself runs
  between two readings.
\<close>

datatype routine = startHealthCheck | startMetricsCollection | HealthCheck_routine

datatype event =
    Dial
  | SetPool sql_db int int duration duration
  | Ping sql_db duration
  | Stats sql_db
  | Sleep duration
  | Lock | Unlock | RLock | RUnlock
  | WriteHealth string
  | WriteMetrics
  | Go routine
  | CloseConn sql_db

record world =
  now :: instant
  trace :: "event list"
  dialled :: nat

definition emit :: "event list \<Rightarrow> world \<Rightarrow> world" where
  "emit es w = w\<lparr>trace := trace w @ es\<rparr>"

definition elapse :: "nat \<Rightarrow> world \<Rightarrow> world" where
  "elapse n w = w\<lparr>now := now w + int n\<rparr>"

text \<open>\<^verbatim>\<open>time.Sleep(d)\<close> returns at once when \<^verbatim>\<open>d\<close> is not positive.\<close>

definition time_Sleep :: "duration \<Rightarrow> world \<Rightarrow> world" where
  "time_Sleep d w = emit [Sleep d] (elapse (nat d) w)"

text \<open>
  What the database does at one connection attempt: the answer of \<^verbatim>\<open>gorm.Open\<close> and
  the time it takes, the answer of \<^verbatim>\<open>PingContext\<close> under a context of a given timeout
  (time taken and error, if any) and the statistics of the pool.
\<close>

type_synonym pinger = "duration \<Rightarrow> nat \<times> string option"

record dial =
  opened :: "string + gorm_DB"
  open_elapsed :: nat
  pinged :: pinger
  polled :: DBStats

section \<open>Metrics\<close>

definition updateMetrics :: "DBStats \<Rightarrow> DatabaseManager \<Rightarrow> world \<Rightarrow> panic + (DatabaseManager \<times> world)" where
  "updateMetrics stats dm w =
     (let w1 = emit [Lock] w in
      case db dm of
        None \<Rightarrow> Inl NilPointerDereference
      | Some g \<Rightarrow>
          (case DB g of
             Inl err \<Rightarrow> Inr (dm, emit [Unlock] w1)
           | Inr sqlDB \<Rightarrow>
               Inr (dm\<lparr>metrics := (metrics dm)\<lparr>
                      TotalConnections := stats_OpenConnections stats,
                      OpenConnections := stats_OpenConnections stats,
                      IdleConnections := stats_Idle stats,
                      InUseConnections := stats_InUse stats,
                      WaitCount := stats_WaitCount stats,
                      WaitDuration := stats_WaitDuration stats,
                      MaxOpenConnections := DatabaseMaxOpenConns (config dm),
                      MaxIdleConnections := DatabaseMaxIdleConns (config dm)\<rparr>\<rparr>,
                    emit [Stats sqlDB, WriteMetrics, Unlock] w1)))"

definition GetMetrics :: "DatabaseManager \<Rightarrow> world \<Rightarrow> ConnectionMetrics \<times> world" where
  "GetMetrics dm w = (metrics dm, emit [RLock, RUnlock] w)"

section \<open>Connecting\<close>

text \<open>
  \<^verbatim>\<open>connect\<close> makes one attempt; \<open>target n\<close> is what the database does at the
  \<open>n\<close>-th attempt since the start of the world.
\<close>

definition connect :: "(nat \<Rightarrow> dial) \<Rightarrow> DatabaseManager \<Rightarrow> world
    \<Rightarrow> panic + (string option \<times> DatabaseManager \<times> world)" where
  "connect target dm w =
     (let d = target (Suc (dialled w));
          w1 = emit [Dial] (elapse (open_elapsed d) (w\<lparr>dialled := Suc (dialled w)\<rparr>)) in
      case opened d of
        Inl err \<Rightarrow> Inr (Some err, dm, w1)
      | Inr g \<Rightarrow>
          (case DB g of
             Inl err \<Rightarrow> Inr (Some err, dm, w1)
           | Inr sqlDB \<Rightarrow>
               (let w2 = emit [SetPool sqlDB (DatabaseMaxOpenConns (config dm))
                                 (DatabaseMaxIdleConns (config dm))
                                 (DatabaseConnMaxLifetime (config dm))
                                 (DatabaseConnMaxIdleTime (config dm))] w1;
                    timeout = DatabaseConnectTimeout (config dm);
                    w3 = emit [Ping sqlDB timeout] (elapse (fst (pinged d timeout)) w2) in
                case snd (pinged d timeout) of
                  Some err \<Rightarrow> Inr (Some err, dm, w3)
                | None \<Rightarrow>
                    (case updateMetrics (polled d) (dm\<lparr>db := Some g\<rparr>) w3 of
                       Inl p \<Rightarrow> Inl p
                     | Inr (dm', w4) \<Rightarrow> Inr (None, dm', w4)))))"

text \<open>\<^verbatim>\<open>connect\<close> leaves the configuration alone; the loop below terminates by that.\<close>

lemma connect_config:
  "connect target dm w = Inr (r, dm', w') \<Longrightarrow> config dm' = config dm"
  by (auto simp: connect_def updateMetrics_def Let_def split: sum.splits option.splits)

text \<open>
  The retry loop of \<^verbatim>\<open>connectWithRetry\<close>, entered with the counter \<open>attempt\<close> and the
  last error seen. The counter is a Go \<^verbatim>\<open>int\<close>; it runs from 1 to at most one above the
  configured number of attempts, so for every such number below the largest \<^verbatim>\<open>int\<close> no
  increment wraps and the integer of the model is the counter.
\<close>

function connectWithRetry_from :: "int \<Rightarrow> error option \<Rightarrow> (nat \<Rightarrow> dial) \<Rightarrow> DatabaseManager \<Rightarrow> world
    \<Rightarrow> panic + (error option \<times> DatabaseManager \<times> world)" where
  "connectWithRetry_from attempt lastErr target dm w =
     (if attempt \<le> DatabaseRetryAttempts (config dm) then
        (case connect target dm w of
           Inl p \<Rightarrow> Inl p
         | Inr (Some err, dm1, w1) \<Rightarrow>
             (let dm2 = dm1\<lparr>healthStatus := (healthStatus dm1)\<lparr>RetryCount := attempt\<rparr>\<rparr>;
                  w2 = emit [WriteHealth ''RetryCount''] w1;
                  w3 = (if attempt < DatabaseRetryAttempts (config dm2)
                        then time_Sleep (DatabaseRetryDelay (config dm2)) w2 else w2)
              in connectWithRetry_from (attempt + 1) (Some (LibError err)) target dm2 w3)
         | Inr (None, dm1, w1) \<Rightarrow>
             Inr (None,
                  dm1\<lparr>healthStatus := (healthStatus dm1)\<lparr>IsHealthy := True, RetryCount := 0\<rparr>\<rparr>,
                  emit [WriteHealth ''IsHealthy'', WriteHealth ''RetryCount''] w1))
      else
        Inr (Some (WithContext ''retry_attempts'' (DatabaseRetryAttempts (config dm))
                    (WithResource ''database''
                      (WithOperation ''connect_database''
                        (DatabaseError ''Failed to connect to database after retries'' lastErr)))),
             dm, w))"
  by pat_completeness auto
termination
  by (relation "measure (\<lambda>(attempt, lastErr, target, dm, w).
                  nat (DatabaseRetryAttempts (config dm) + 1 - attempt))")
     (auto dest: connect_config)

definition connectWithRetry :: "(nat \<Rightarrow> dial) \<Rightarrow> DatabaseManager \<Rightarrow> world
    \<Rightarrow> panic + (error option \<times> DatabaseManager \<times> world)" where
  "connectWithRetry target dm w = connectWithRetry_from 1 None target dm w"

definition NewDatabaseManager :: "Config \<Rightarrow> (nat \<Rightarrow> dial) \<Rightarrow> world
    \<Rightarrow> panic + ((error + DatabaseManager) \<times> world)" where
  "NewDatabaseManager cfg target w =
     (let manager = \<lparr>db = None, config = cfg,
                      healthStatus = \<lparr>IsHealthy = False, LastCheck = zeroTime, LastError = [],
                                      ResponseTime = 0, RetryCount = 0\<rparr>,
                      metrics = \<lparr>TotalConnections = 0, OpenConnections = 0, IdleConnections = 0,
                                 InUseConnections = 0, WaitCount = 0, WaitDuration = 0,
                                 MaxOpenConnections = 0, MaxIdleConnections = 0\<rparr>\<rparr> in
      case connectWithRetry target manager w of
        Inl p \<Rightarrow> Inl p
      | Inr (Some err, dm, w1) \<Rightarrow>
          Inr (Inl (WithResource ''database''
                     (WithOperation ''initialize_database_manager''
                       (DatabaseError ''Failed to initialize database manager'' (Some err)))),
               w1)
      | Inr (None, dm, w1) \<Rightarrow>
          Inr (Inr dm, emit [Go startHealthCheck, Go startMetricsCollection] w1))"

definition GetDB :: "DatabaseManager \<Rightarrow> gorm_DB option" where
  "GetDB dm = db dm"

section \<open>Health checks\<close>

definition getHealthStatus :: "DatabaseManager \<Rightarrow> world \<Rightarrow> HealthStatus \<times> world" where
  "getHealthStatus dm w = (healthStatus dm, emit [RLock, RUnlock] w)"

definition updateHealthStatus :: "bool \<Rightarrow> string \<Rightarrow> duration \<Rightarrow> DatabaseManager \<Rightarrow> world
    \<Rightarrow> DatabaseManager \<times> world" where
  "updateHealthStatus isHealthy lastError responseTime dm w =
     (dm\<lparr>healthStatus := (healthStatus dm)\<lparr>
           IsHealthy := isHealthy,
           LastCheck := now w,
           LastError := lastError,
           ResponseTime := responseTime\<rparr>\<rparr>,
      emit [Lock, WriteHealth ''IsHealthy'', WriteHealth ''LastCheck'',
            WriteHealth ''LastError'', WriteHealth ''ResponseTime'', Unlock] w)"

text \<open>
  \<^verbatim>\<open>FastHealthCheck\<close> reads the cached status under the shared lock; when the status
  is stale it starts \<^verbatim>\<open>HealthCheck\<close> as a goroutine and returns what it read.
\<close>

definition FastHealthCheck :: "DatabaseManager \<Rightarrow> world \<Rightarrow> HealthStatus \<times> world" where
  "FastHealthCheck dm w =
     (if Sub (now w) (LastCheck (healthStatus dm)) < 10 * Second
      then (healthStatus dm, emit [RLock, RUnlock] w)
      else (healthStatus dm, emit [RLock, Go HealthCheck_routine, RUnlock] w))"

text \<open>
  \<^verbatim>\<open>HealthCheck\<close> reads the clock three times: \<^verbatim>\<open>time.Now()\<close> at its start,
  \<^verbatim>\<open>time.Since(start)\<close> once the handle lookup or the ping has returned, and
  \<^verbatim>\<open>time.Now()\<close> inside \<^verbatim>\<open>updateHealthStatus\<close>. A \<open>lag\<close> tells the time the code itself
  takes in between: from the start through \<^verbatim>\<open>context.WithTimeout\<close> and \<^verbatim>\<open>dm.db.DB()\<close>,
  from the return of the lookup or of the ping to \<^verbatim>\<open>time.Since\<close>, and from there to
  the \<^verbatim>\<open>time.Now()\<close> of the store, the wait for the lock included.
\<close>

record lag =
  lookup_elapsed :: nat
  measure_elapsed :: nat
  store_elapsed :: nat

text \<open>
  \<^verbatim>\<open>HealthCheck\<close>; \<open>ping\<close> is what the pool answers to \<^verbatim>\<open>PingContext\<close> this time.
  \<^verbatim>\<open>dm.db.DB()\<close> dereferences \<^verbatim>\<open>dm.db\<close>.
\<close>

definition HealthCheck :: "lag \<Rightarrow> pinger \<Rightarrow> DatabaseManager \<Rightarrow> world
    \<Rightarrow> panic + (HealthStatus \<times> DatabaseManager \<times> world)" where
  "HealthCheck lg ping dm w =
     (let start = now w;
          timeout = DatabaseHealthTimeout (config dm);
          w0 = elapse (lookup_elapsed lg) w in
      case db dm of
        None \<Rightarrow> Inl NilPointerDereference
      | Some g \<Rightarrow>
          (case DB g of
             Inl err \<Rightarrow>
               (let wm = elapse (measure_elapsed lg) w0;
                    (dm1, w1) = updateHealthStatus False err (Sub (now wm) start) dm
                                  (elapse (store_elapsed lg) wm);
                    (hs, w2) = getHealthStatus dm1 w1
                in Inr (hs, dm1, w2))
           | Inr sqlDB \<Rightarrow>
               (let w1 = emit [Ping sqlDB timeout] (elapse (fst (ping timeout)) w0);
                    wm = elapse (measure_elapsed lg) w1 in
                case snd (ping timeout) of
                  Some err \<Rightarrow>
                    (let (dm2, w2) = updateHealthStatus False err (Sub (now wm) start) dm
                                       (elapse (store_elapsed lg) wm);
                         (hs, w3) = getHealthStatus dm2 w2
                     in Inr (hs, dm2, w3))
                | None \<Rightarrow>
                    (let (dm2, w2) = updateHealthStatus True [] (Sub (now wm) start) dm
                                       (elapse (store_elapsed lg) wm);
                         (hs, w3) = getHealthStatus dm2 w2
                     in Inr (hs, dm2, w3)))))"

definition IsHealthy_now :: "DatabaseManager \<Rightarrow> world \<Rightarrow> bool \<times> world" where
  "IsHealthy_now dm w = (let (hs, w1) = getHealthStatus dm w in (IsHealthy hs, w1))"

definition GetHealthStatus :: "DatabaseManager \<Rightarrow> world \<Rightarrow> HealthStatus \<times> world" where
  "GetHealthStatus dm w = getHealthStatus dm w"

section \<open>Shutdown\<close>

text \<open>\<open>closing\<close> is what \<^verbatim>\<open>sqlDB.Close()\<close> answers.\<close>

definition Close :: "string option \<Rightarrow> DatabaseManager \<Rightarrow> world \<Rightarrow> error option \<times> world" where
  "Close closing dm w =
     (let w1 = emit [Lock] w in
      case db dm of
        None \<Rightarrow> (None, emit [Unlock] w1)
      | Some g \<Rightarrow>
          (case DB g of
             Inl err \<Rightarrow>
               (Some (WithResource ''database''
                       (WithOperation ''close_database''
                         (DatabaseError ''Failed to get SQL DB for closing'' (Some (LibError err))))),
                emit [Unlock] w1)
           | Inr sqlDB \<Rightarrow>
               (let w2 = emit [CloseConn sqlDB] w1 in
                case closing of
                  Some err \<Rightarrow>
                    (Some (WithResource ''database''
                            (WithOperation ''close_database''
                              (DatabaseError ''Failed to close database connection''
                                (Some (LibError err))))),
                     emit [Unlock] w2)
                | None \<Rightarrow> (None, emit [Unlock] w2))))"

section \<open>Histories\<close>

text \<open>
  After construction the manager is used by the two periodic loops
  (\<^verbatim>\<open>startHealthCheck\<close> calls \<^verbatim>\<open>HealthCheck\<close> at every tick, \<^verbatim>\<open>startMetricsCollection\<close>
  calls \<^verbatim>\<open>updateMetrics\<close>), by the probe a stale fast check starts and by the callers of
  the exported methods. A history is a list of such calls, each executed as a whole,
  with the answers of the database and the time that passes in between.
\<close>

datatype call =
    Call_HealthCheck lag pinger
  | Call_FastHealthCheck
  | Call_updateMetrics DBStats
  | Call_GetMetrics
  | Call_GetHealthStatus
  | Call_Close "string option"
  | Wait nat

fun step :: "call \<Rightarrow> DatabaseManager \<Rightarrow> world \<Rightarrow> panic + (DatabaseManager \<times> world)" where
  "step (Call_HealthCheck lg ping) dm w =
     (case HealthCheck lg ping dm w of Inl p \<Rightarrow> Inl p | Inr (hs, dm', w') \<Rightarrow> Inr (dm', w'))"
| "step Call_FastHealthCheck dm w = Inr (dm, snd (FastHealthCheck dm w))"
| "step (Call_updateMetrics stats) dm w = updateMetrics stats dm w"
| "step Call_GetMetrics dm w = Inr (dm, snd (GetMetrics dm w))"
| "step Call_GetHealthStatus dm w = Inr (dm, snd (GetHealthStatus dm w))"
| "step (Call_Close closing) dm w = Inr (dm, snd (Close closing dm w))"
| "step (Wait n) dm w = Inr (dm, elapse n w)"

fun run :: "call list \<Rightarrow> DatabaseManager \<Rightarrow> world \<Rightarrow> panic + (DatabaseManager \<times> world)" where
  "run [] dm w = Inr (dm, w)"
| "run (c # cs) dm w =
     (case step c dm w of Inl p \<Rightarrow> Inl p | Inr (dm', w') \<Rightarrow> run cs dm' w')"

section \<open>Reading traces\<close>

text \<open>The events one world has more than an earlier one.\<close>

definition since :: "world \<Rightarrow> world \<Rightarrow> event list" where
  "since w w' = drop (length (trace w)) (trace w')"

text \<open>The connection attempts and the sleeps of a trace, in their order.\<close>

fun is_schedule :: "event \<Rightarrow> bool" where
  "is_schedule Dial = True"
| "is_schedule (Sleep d) = True"
| "is_schedule e = False"

definition schedule :: "event list \<Rightarrow> event list" where
  "schedule es = filter is_schedule es"

text \<open>The time spent asleep in a trace.\<close>

fun sleep_of :: "event \<Rightarrow> duration" where
  "sleep_of (Sleep d) = max 0 d"
| "sleep_of e = 0"

definition slept :: "event list \<Rightarrow> duration" where
  "slept es = sum_list (map sleep_of es)"

text \<open>
  Goroutines started; probes issued (a ping, or a goroutine that will ping); pools
  closed.
\<close>

fun is_Go :: "event \<Rightarrow> bool" where
  "is_Go (Go r) = True"
| "is_Go e = False"

fun is_probe :: "event \<Rightarrow> bool" where
  "is_probe (Ping h t) = True"
| "is_probe (Go r) = True"
| "is_probe e = False"

fun is_CloseConn :: "event \<Rightarrow> bool" where
  "is_CloseConn (CloseConn h) = True"
| "is_CloseConn e = False"

text \<open>
  The lock discipline of a trace: \<open>lock_scan held es\<close> follows the exclusive mode of
  \<^verbatim>\<open>mu\<close> through \<open>es\<close> and is \<open>None\<close> as soon as a field of \<^verbatim>\<open>healthStatus\<close> is
  stored while the lock is not held exclusively; otherwise it tells whether the lock
  is held at the end.
\<close>

fun lock_scan :: "bool \<Rightarrow> event list \<Rightarrow> bool option" where
  "lock_scan held [] = Some held"
| "lock_scan held (Lock # es) = lock_scan True es"
| "lock_scan held (Unlock # es) = lock_scan False es"
| "lock_scan held (WriteHealth f # es) = (if held then lock_scan held es else None)"
| "lock_scan held (e # es) = lock_scan held es"

definition guarded :: "event list \<Rightarrow> bool" where
  "guarded es = (lock_scan False es \<noteq> None)"


fun trace_of :: "panic + ('a \<times> 'b \<times> world) \<Rightarrow> event list" where
  "trace_of (Inl p) = []"
| "trace_of (Inr (r, dm, w)) = trace w"

section \<open>Answers of the database\<close>

text \<open>The outcome of one connection attempt as \<^verbatim>\<open>connect\<close> reports it.\<close>

definition dial_error :: "Config \<Rightarrow> dial \<Rightarrow> string option" where
  "dial_error cfg d =
     (case opened d of
        Inl err \<Rightarrow> Some err
      | Inr g \<Rightarrow> (case DB g of
                   Inl err \<Rightarrow> Some err
                 | Inr sqlDB \<Rightarrow> snd (pinged d (DatabaseConnectTimeout cfg))))"




section \<open>Sample inputs\<close>

text \<open>
  The configuration carries the defaults that the README documents; \<open>manager0\<close> is the
  manager as \<^verbatim>\<open>NewDatabaseManager\<close> allocates it.
\<close>

definition cfg0 :: Config where
  "cfg0 = \<lparr>DatabaseMaxOpenConns = 25, DatabaseMaxIdleConns = 5,
           DatabaseConnMaxLifetime = 300 * Second, DatabaseConnMaxIdleTime = 60 * Second,
           DatabaseConnectTimeout = 30 * Second, DatabaseHealthTimeout = 5 * Second,
           DatabaseRetryAttempts = 3, DatabaseRetryDelay = Second\<rparr>"

definition manager0 :: DatabaseManager where
  "manager0 = \<lparr>db = None, config = cfg0,
      healthStatus = \<lparr>IsHealthy = False, LastCheck = zeroTime, LastError = [],
                      ResponseTime = 0, RetryCount = 0\<rparr>,
      metrics = \<lparr>TotalConnections = 0, OpenConnections = 0, IdleConnections = 0,
                 InUseConnections = 0, WaitCount = 0, WaitDuration = 0,
                 MaxOpenConnections = 0, MaxIdleConnections = 0\<rparr>\<rparr>"

definition world0 :: world where
  "world0 = \<lparr>now = 0, trace = [], dialled = 0\<rparr>"

text \<open>A database that refuses the connection, one that accepts it, and two targets.\<close>

definition refused :: dial where
  "refused = \<lparr>opened = Inl ''connection refused'', open_elapsed = 1000,
              pinged = (\<lambda>t. (0, None)),
              polled = \<lparr>stats_OpenConnections = 0, stats_Idle = 0, stats_InUse = 0,
                        stats_WaitCount = 0, stats_WaitDuration = 0\<rparr>\<rparr>"

definition accepted :: dial where
  "accepted = \<lparr>opened = Inr (GormDB (Inr 7)), open_elapsed = 1000,
               pinged = (\<lambda>t. (2000, None)),
               polled = \<lparr>stats_OpenConnections = 1, stats_Idle = 1, stats_InUse = 0,
                         stats_WaitCount = 0, stats_WaitDuration = 0\<rparr>\<rparr>"

definition target_down :: "nat \<Rightarrow> dial" where
  "target_down n = refused"

definition target_up_at :: "nat \<Rightarrow> nat \<Rightarrow> dial" where
  "target_up_at k n = (if n < k then refused else accepted)"

text \<open>The manager and the world after a construction that connects at the first attempt.\<close>

definition manager1 :: DatabaseManager where
  "manager1 = \<lparr>db = Some (GormDB (Inr 7)), config = cfg0,
      healthStatus = \<lparr>IsHealthy = True, LastCheck = zeroTime, LastError = [],
                      ResponseTime = 0, RetryCount = 0\<rparr>,
      metrics = \<lparr>TotalConnections = 1, OpenConnections = 1, IdleConnections = 1,
                 InUseConnections = 0, WaitCount = 0, WaitDuration = 0,
                 MaxOpenConnections = 25, MaxIdleConnections = 5\<rparr>\<rparr>"

definition world1 :: world where
  "world1 = \<lparr>now = 3000,
             trace = [Dial, SetPool 7 25 5 (300 * Second) (60 * Second), Ping 7 (30 * Second),
                      Lock, Stats 7, WriteMetrics, Unlock,
                      WriteHealth ''IsHealthy'', WriteHealth ''RetryCount'',
                      Go startHealthCheck, Go startMetricsCollection],
             dialled = 1\<rparr>"

definition busy :: DBStats where
  "busy = \<lparr>stats_OpenConnections = 12, stats_Idle = 2, stats_InUse = 10,
           stats_WaitCount = 4, stats_WaitDuration = 1500\<rparr>"

text \<open>
  A full health check of the constructed manager whose ping succeeds after 2000 ns,
  with 4230 ns spent by the code before it reads the clock and 500 ns more before it
  stores the status.
\<close>

definition lag1 :: lag where
  "lag1 = \<lparr>lookup_elapsed = 4000, measure_elapsed = 230, store_elapsed = 500\<rparr>"

definition ping_ok :: pinger where
  "ping_ok t = (2000, None)"

definition status2 :: HealthStatus where
  "status2 = \<lparr>IsHealthy = True, LastCheck = 9730, LastError = [],
              ResponseTime = 6230, RetryCount = 0\<rparr>"

definition manager2 :: DatabaseManager where
  "manager2 = manager1\<lparr>healthStatus := status2\<rparr>"

definition world2 :: world where
  "world2 = \<lparr>now = 9730,
             trace = trace world1 @
                     [Ping 7 (5 * Second), Lock, WriteHealth ''IsHealthy'', WriteHealth ''LastCheck'',
                      WriteHealth ''LastError'', WriteHealth ''ResponseTime'', Unlock,
                      RLock, RUnlock],
             dialled = 1\<rparr>"




section \<open>Basic facts\<close>

declare connectWithRetry_from.simps [simp del]

lemma trace_emit [simp]: "trace (emit es w) = trace w @ es"
  and now_emit [simp]: "now (emit es w) = now w"
  and dialled_emit [simp]: "dialled (emit es w) = dialled w"
  by (simp_all add: emit_def)

lemma trace_elapse [simp]: "trace (elapse n w) = trace w"
  and now_elapse [simp]: "now (elapse n w) = now w + int n"
  and dialled_elapse [simp]: "dialled (elapse n w) = dialled w"
  by (simp_all add: elapse_def)

lemma trace_time_Sleep [simp]: "trace (time_Sleep d w) = trace w @ [Sleep d]"
  and dialled_time_Sleep [simp]: "dialled (time_Sleep d w) = dialled w"
  by (simp_all add: time_Sleep_def)

lemma since_append: "trace w' = trace w @ es \<Longrightarrow> since w w' = es"
  by (simp add: since_def)

lemma schedule_append [simp]: "schedule (xs @ ys) = schedule xs @ schedule ys"
  by (simp add: schedule_def)

lemma schedule_simps [simp]:
  "schedule [] = []"
  "schedule (e # es) = (if is_schedule e then e # schedule es else schedule es)"
  by (simp_all add: schedule_def)

lemma connect_fails:
  assumes "dial_error (config dm) (target (Suc (dialled w))) = Some err"
  shows "\<exists>w' es. connect target dm w = Inr (Some err, dm, w') \<and> dialled w' = Suc (dialled w)
           \<and> trace w' = trace w @ es \<and> schedule es = [Dial] \<and> filter is_Go es = []"
  using assms
  by (auto simp: connect_def dial_error_def Let_def split: sum.splits option.splits)

lemma connect_succeeds:
  assumes "dial_error (config dm) (target (Suc (dialled w))) = None"
  shows "\<exists>dm' w' es g h. connect target dm w = Inr (None, dm', w') \<and> dialled w' = Suc (dialled w)
           \<and> trace w' = trace w @ es \<and> schedule es = [Dial] \<and> filter is_Go es = []
           \<and> db dm' = Some g \<and> DB g = Inr h \<and> config dm' = config dm
           \<and> healthStatus dm' = healthStatus dm
           \<and> TotalConnections (metrics dm') = OpenConnections (metrics dm')
           \<and> MaxOpenConnections (metrics dm') = DatabaseMaxOpenConns (config dm)
           \<and> MaxIdleConnections (metrics dm') = DatabaseMaxIdleConns (config dm)"
  using assms
  by (auto simp: connect_def dial_error_def updateMetrics_def Let_def split: sum.splits option.splits)

lemma retry_prefix:
  assumes "\<forall>i. 1 \<le> i \<and> i \<le> m \<longrightarrow> dial_error (config dm) (target (dialled w + i)) \<noteq> None"
    and "a + int m \<le> DatabaseRetryAttempts (config dm)"
  shows "\<exists>le' dm' w' es. connectWithRetry_from a le target dm w = connectWithRetry_from (a + int m) le' target dm' w'
           \<and> config dm' = config dm \<and> dialled w' = dialled w + m
           \<and> trace w' = trace w @ es
           \<and> schedule es = concat (replicate m [Dial, Sleep (DatabaseRetryDelay (config dm))])
           \<and> filter is_Go es = []"
  using assms
proof (induction m arbitrary: a le dm w)
  case 0
  show ?case by (rule exI[of _ le], rule exI[of _ dm], rule exI[of _ w], rule exI[of _ "[]"]) simp
next
  case (Suc m)
  let ?N = "DatabaseRetryAttempts (config dm)"
  from Suc.prems(1) have "1 \<le> (1::nat) \<and> 1 \<le> Suc m \<longrightarrow> dial_error (config dm) (target (dialled w + 1)) \<noteq> None" by blast
  then have "dial_error (config dm) (target (dialled w + 1)) \<noteq> None" by simp
  then obtain err where err: "dial_error (config dm) (target (Suc (dialled w))) = Some err" by auto
  from connect_fails[where dm=dm and target=target and w=w, OF err] obtain w1 es1 where
    c: "connect target dm w = Inr (Some err, dm, w1)" and d1: "dialled w1 = Suc (dialled w)"
    and t1: "trace w1 = trace w @ es1" and s1: "schedule es1 = [Dial]" and g1: "filter is_Go es1 = []"
    by blast
  define dm2 where "dm2 = dm\<lparr>healthStatus := (healthStatus dm)\<lparr>RetryCount := a\<rparr>\<rparr>"
  define w3 where "w3 = time_Sleep (DatabaseRetryDelay (config dm)) (emit [WriteHealth ''RetryCount''] w1)"
  have lt: "a < ?N" using Suc.prems(2) by simp
  have unfold: "connectWithRetry_from a le target dm w
      = connectWithRetry_from (a + 1) (Some (LibError err)) target dm2 w3"
    using lt c by (subst connectWithRetry_from.simps) (simp add: dm2_def w3_def Let_def)
  have cfg2: "config dm2 = config dm" by (simp add: dm2_def)
  have d3: "dialled w3 = Suc (dialled w)" by (simp add: w3_def d1)
  have p1: "\<forall>i. 1 \<le> i \<and> i \<le> m \<longrightarrow> dial_error (config dm2) (target (dialled w3 + i)) \<noteq> None"
  proof (intro allI impI)
    fix i assume "1 \<le> i \<and> i \<le> m"
    then have "1 \<le> Suc i \<and> Suc i \<le> Suc m" by simp
    with Suc.prems(1) have "dial_error (config dm) (target (dialled w + Suc i)) \<noteq> None" by blast
    then show "dial_error (config dm2) (target (dialled w3 + i)) \<noteq> None" by (simp add: cfg2 d3)
  qed
  have p2: "(a + 1) + int m \<le> DatabaseRetryAttempts (config dm2)"
    using Suc.prems(2) by (simp add: cfg2)
  from Suc.IH[where dm=dm2 and w=w3 and a="a+1" and le="Some (LibError err)", OF p1 p2] obtain le' dm' w' es where
    r: "connectWithRetry_from (a + 1) (Some (LibError err)) target dm2 w3
          = connectWithRetry_from (a + 1 + int m) le' target dm' w'"
    and c': "config dm' = config dm2" and d': "dialled w' = dialled w3 + m"
    and t': "trace w' = trace w3 @ es"
    and s': "schedule es = concat (replicate m [Dial, Sleep (DatabaseRetryDelay (config dm2))])"
    and g': "filter is_Go es = []"
    by blast
  have t3: "trace w3 = trace w @ (es1 @ [WriteHealth ''RetryCount'', Sleep (DatabaseRetryDelay (config dm))])"
    by (simp add: w3_def t1)
  show ?case
  proof (intro exI conjI)
    show "connectWithRetry_from a le target dm w = connectWithRetry_from (a + int (Suc m)) le' target dm' w'"
    proof -
      have e: "a + int (Suc m) = a + 1 + int m" by simp
      show ?thesis unfolding e using unfold r by (rule trans)
    qed
    show "config dm' = config dm" using c' cfg2 by simp
    show "dialled w' = dialled w + Suc m" using d' d3 by simp
    show "trace w' = trace w @ ((es1 @ [WriteHealth ''RetryCount'', Sleep (DatabaseRetryDelay (config dm))]) @ es)"
      using t' t3 by simp
    show "schedule ((es1 @ [WriteHealth ''RetryCount'', Sleep (DatabaseRetryDelay (config dm))]) @ es)
        = concat (replicate (Suc m) [Dial, Sleep (DatabaseRetryDelay (config dm))])"
      using s1 s' cfg2 by simp
    show "filter is_Go ((es1 @ [WriteHealth ''RetryCount'', Sleep (DatabaseRetryDelay (config dm))]) @ es) = []"
      using g1 g' by simp
  qed
qed


lemma Type_With [simp]:
  "Type (WithOperation op e) = Type e"
  "Type (WithResource r e) = Type e"
  "Type (WithContext k v e) = Type e"
  "Type (DatabaseError msg c) = Some ErrorTypeDatabase"
  by (cases e; simp add: DatabaseError_def)+

lemma Cause_With [simp]:
  "Cause (WithOperation op e) = Cause e"
  "Cause (WithResource r e) = Cause e"
  "Cause (WithContext k v e) = Cause e"
  "Cause (DatabaseError msg c) = c"
  by (cases e; simp add: DatabaseError_def)+

lemma retry_exit:
  assumes "DatabaseRetryAttempts (config dm) < a"
  shows "\<exists>e. connectWithRetry_from a le target dm w = Inr (Some e, dm, w)
           \<and> Type e = Some ErrorTypeDatabase \<and> Cause e = le"
  using assms by (subst connectWithRetry_from.simps) simp

lemma retry_last:
  assumes "dial_error (config dm) (target (Suc (dialled w))) = Some err"
    and "a = DatabaseRetryAttempts (config dm)"
  shows "\<exists>e dm' w' es. connectWithRetry_from a le target dm w = Inr (Some e, dm', w')
           \<and> Type e = Some ErrorTypeDatabase \<and> Cause e = Some (LibError err)
           \<and> config dm' = config dm \<and> dialled w' = Suc (dialled w)
           \<and> trace w' = trace w @ es \<and> schedule es = [Dial] \<and> filter is_Go es = []"
proof -
  from connect_fails[where dm=dm and target=target and w=w, OF assms(1)] obtain w1 es1 where
    c: "connect target dm w = Inr (Some err, dm, w1)" and d1: "dialled w1 = Suc (dialled w)"
    and t1: "trace w1 = trace w @ es1" and s1: "schedule es1 = [Dial]" and g1: "filter is_Go es1 = []"
    by blast
  define dm2 where "dm2 = dm\<lparr>healthStatus := (healthStatus dm)\<lparr>RetryCount := a\<rparr>\<rparr>"
  define w2 where "w2 = emit [WriteHealth ''RetryCount''] w1"
  have unfold: "connectWithRetry_from a le target dm w
      = connectWithRetry_from (a + 1) (Some (LibError err)) target dm2 w2"
    using assms(2) c by (subst connectWithRetry_from.simps) (simp add: dm2_def w2_def Let_def)
  have "DatabaseRetryAttempts (config dm2) < a + 1" using assms(2) by (simp add: dm2_def)
  from retry_exit[OF this, of "Some (LibError err)" target w2] obtain e where
    e: "connectWithRetry_from (a + 1) (Some (LibError err)) target dm2 w2 = Inr (Some e, dm2, w2)"
    and te: "Type e = Some ErrorTypeDatabase" and ce: "Cause e = Some (LibError err)"
    by blast
  show ?thesis
  proof (intro exI conjI)
    show "connectWithRetry_from a le target dm w = Inr (Some e, dm2, w2)" using unfold e by simp
    show "Type e = Some ErrorTypeDatabase" by (rule te)
    show "Cause e = Some (LibError err)" by (rule ce)
    show "config dm2 = config dm" by (simp add: dm2_def)
    show "dialled w2 = Suc (dialled w)" by (simp add: w2_def d1)
    show "trace w2 = trace w @ (es1 @ [WriteHealth ''RetryCount''])" by (simp add: w2_def t1)
    show "schedule (es1 @ [WriteHealth ''RetryCount'']) = [Dial]" using s1 by simp
    show "filter is_Go (es1 @ [WriteHealth ''RetryCount'']) = []" using g1 by simp
  qed
qed

lemma retry_hit:
  assumes "dial_error (config dm) (target (Suc (dialled w))) = None"
    and "a \<le> DatabaseRetryAttempts (config dm)"
  shows "\<exists>dm' w' es g h. connectWithRetry_from a le target dm w = Inr (None, dm', w')
           \<and> config dm' = config dm \<and> dialled w' = Suc (dialled w)
           \<and> trace w' = trace w @ es \<and> schedule es = [Dial] \<and> filter is_Go es = []
           \<and> db dm' = Some g \<and> DB g = Inr h
           \<and> healthStatus dm' = (healthStatus dm)\<lparr>IsHealthy := True, RetryCount := 0\<rparr>"
proof -
  from connect_succeeds[where dm=dm and target=target and w=w, OF assms(1)]
  obtain dm1 w1 es1 g h where
    c: "connect target dm w = Inr (None, dm1, w1)" and d1: "dialled w1 = Suc (dialled w)"
    and t1: "trace w1 = trace w @ es1" and s1: "schedule es1 = [Dial]" and g1: "filter is_Go es1 = []"
    and db1: "db dm1 = Some g" "DB g = Inr h" and c1: "config dm1 = config dm"
    and h1: "healthStatus dm1 = healthStatus dm"
    by blast
  define dm2 where "dm2 = dm1\<lparr>healthStatus := (healthStatus dm1)\<lparr>IsHealthy := True, RetryCount := 0\<rparr>\<rparr>"
  define w2 where "w2 = emit [WriteHealth ''IsHealthy'', WriteHealth ''RetryCount''] w1"
  define es2 where "es2 = es1 @ [WriteHealth ''IsHealthy'', WriteHealth ''RetryCount'']"
  have unfold: "connectWithRetry_from a le target dm w = Inr (None, dm2, w2)"
    using assms(2) c by (subst connectWithRetry_from.simps) (simp add: dm2_def w2_def)
  show ?thesis
  proof (intro exI conjI)
    show "connectWithRetry_from a le target dm w = Inr (None, dm2, w2)" by (rule unfold)
    show "config dm2 = config dm" by (simp add: dm2_def c1)
    show "dialled w2 = Suc (dialled w)" by (simp add: w2_def d1)
    show "trace w2 = trace w @ es2" by (simp add: w2_def t1 es2_def)
    show "schedule es2 = [Dial]" using s1 by (simp add: es2_def)
    show "filter is_Go es2 = []" using g1 by (simp add: es2_def)
    show "db dm2 = Some g" by (simp add: dm2_def db1)
    show "DB g = Inr h" by (rule db1)
    show "healthStatus dm2 = (healthStatus dm)\<lparr>IsHealthy := True, RetryCount := 0\<rparr>"
      by (simp add: dm2_def h1)
  qed
qed

section \<open>Connecting with retries\<close>

lemma retry_exhausts:
  assumes N: "1 \<le> DatabaseRetryAttempts (config dm)"
    and fail: "\<forall>i. 1 \<le> i \<and> int i \<le> DatabaseRetryAttempts (config dm)
                 \<longrightarrow> dial_error (config dm) (target (dialled w + i)) \<noteq> None"
  shows "\<exists>e dm' w' es. connectWithRetry_from 1 le target dm w = Inr (Some e, dm', w')
           \<and> Type e = Some ErrorTypeDatabase
           \<and> Cause e = map_option LibError
                 (dial_error (config dm) (target (dialled w + nat (DatabaseRetryAttempts (config dm)))))
           \<and> dialled w' = dialled w + nat (DatabaseRetryAttempts (config dm))
           \<and> trace w' = trace w @ es
           \<and> schedule es = concat (replicate (nat (DatabaseRetryAttempts (config dm)) - 1)
                                 [Dial, Sleep (DatabaseRetryDelay (config dm))]) @ [Dial]
           \<and> filter is_Go es = []"
proof -
  let ?N = "DatabaseRetryAttempts (config dm)"
  define m where "m = nat ?N - 1"
  have Nm: "?N = 1 + int m" using N by (simp add: m_def)
  have p1: "\<forall>i. 1 \<le> i \<and> i \<le> m \<longrightarrow> dial_error (config dm) (target (dialled w + i)) \<noteq> None"
    using fail Nm by auto
  have p2: "1 + int m \<le> ?N" using Nm by simp
  from retry_prefix[where dm=dm and w=w and m=m and a=1 and le=le and target=target, OF p1 p2]
  obtain le1 dm1 w1 es1 where
    r1: "connectWithRetry_from 1 le target dm w = connectWithRetry_from (1 + int m) le1 target dm1 w1"
    and c1: "config dm1 = config dm" and d1: "dialled w1 = dialled w + m"
    and t1: "trace w1 = trace w @ es1"
    and s1: "schedule es1 = concat (replicate m [Dial, Sleep (DatabaseRetryDelay (config dm))])"
    and g1: "filter is_Go es1 = []"
    by blast
  have "1 \<le> Suc m \<and> int (Suc m) \<le> ?N" using Nm by simp
  with fail have "dial_error (config dm) (target (dialled w + Suc m)) \<noteq> None" by blast
  then obtain err where err: "dial_error (config dm) (target (dialled w + Suc m)) = Some err" by auto
  have err1: "dial_error (config dm1) (target (Suc (dialled w1))) = Some err"
    using err by (simp add: c1 d1)
  have a1: "1 + int m = DatabaseRetryAttempts (config dm1)" using Nm c1 by simp
  from retry_last[where dm=dm1 and w=w1 and target=target and a="1 + int m" and le=le1, OF err1 a1]
  obtain e dm2 w2 es2 where
    r2: "connectWithRetry_from (1 + int m) le1 target dm1 w1 = Inr (Some e, dm2, w2)"
    and te: "Type e = Some ErrorTypeDatabase" and ce: "Cause e = Some (LibError err)"
    and d2: "dialled w2 = Suc (dialled w1)" and t2: "trace w2 = trace w1 @ es2"
    and s2: "schedule es2 = [Dial]" and g2: "filter is_Go es2 = []"
    by blast
  have nN: "nat ?N = Suc m" using Nm by simp
  show ?thesis
  proof (intro exI conjI)
    show "connectWithRetry_from 1 le target dm w = Inr (Some e, dm2, w2)" using r1 r2 by simp
    show "Type e = Some ErrorTypeDatabase" by (rule te)
    show "Cause e = map_option LibError (dial_error (config dm) (target (dialled w + nat ?N)))"
      using ce err nN by simp
    show "dialled w2 = dialled w + nat ?N" using d2 d1 nN by simp
    show "trace w2 = trace w @ (es1 @ es2)" using t1 t2 by simp
    show "schedule (es1 @ es2) = concat (replicate (nat ?N - 1)
            [Dial, Sleep (DatabaseRetryDelay (config dm))]) @ [Dial]"
      using s1 s2 nN by simp
    show "filter is_Go (es1 @ es2) = []" using g1 g2 by simp
  qed
qed

text \<open>
  C1. With a retry count \<open>N \<ge> 1\<close> and a database that fails at every attempt,
  \<^verbatim>\<open>connectWithRetry\<close> makes exactly \<open>N\<close> attempts, sleeps the configured delay after
  each failed attempt but the last (so \<open>N - 1\<close> times, never before the first attempt)
  and returns a database error.
\<close>

theorem connectWithRetry_exhausts:
  assumes "1 \<le> DatabaseRetryAttempts (config dm)"
    and "\<forall>i. dial_error (config dm) (target i) \<noteq> None"
  shows "\<exists>e dm' w'. connectWithRetry target dm w = Inr (Some e, dm', w')
           \<and> Type e = Some ErrorTypeDatabase
           \<and> dialled w' = dialled w + nat (DatabaseRetryAttempts (config dm))
           \<and> schedule (since w w') =
                concat (replicate (nat (DatabaseRetryAttempts (config dm)) - 1)
                          [Dial, Sleep (DatabaseRetryDelay (config dm))]) @ [Dial]"
proof -
  have "\<forall>i. 1 \<le> i \<and> int i \<le> DatabaseRetryAttempts (config dm)
          \<longrightarrow> dial_error (config dm) (target (dialled w + i)) \<noteq> None"
    using assms(2) by blast
  from retry_exhausts[where dm=dm and w=w and target=target and le=None, OF assms(1) this]
  obtain e dm' w' es where
    "connectWithRetry_from 1 None target dm w = Inr (Some e, dm', w')"
    "Type e = Some ErrorTypeDatabase"
    "dialled w' = dialled w + nat (DatabaseRetryAttempts (config dm))"
    "trace w' = trace w @ es"
    "schedule es = concat (replicate (nat (DatabaseRetryAttempts (config dm)) - 1)
                             [Dial, Sleep (DatabaseRetryDelay (config dm))]) @ [Dial]"
    by blast
  then show ?thesis
    unfolding connectWithRetry_def by (auto simp: since_append)
qed

theorem connectWithRetry_exhausts_witness:
  "\<exists>e dm' w'. connectWithRetry target_down manager0 world0 = Inr (Some e, dm', w')
      \<and> Type e = Some ErrorTypeDatabase
      \<and> dialled w' = 3
      \<and> schedule (since world0 w') = [Dial, Sleep Second, Dial, Sleep Second, Dial]"
proof -
  have h1: "1 \<le> DatabaseRetryAttempts (config manager0)"
    by (simp add: manager0_def cfg0_def)
  have h2: "\<forall>i. dial_error (config manager0) (target_down i) \<noteq> None"
    by (simp add: dial_error_def target_down_def refused_def)
  have n: "nat (DatabaseRetryAttempts (config manager0)) - 1 = Suc (Suc 0)"
    "nat (DatabaseRetryAttempts (config manager0)) = 3"
    "DatabaseRetryDelay (config manager0) = Second"
    by (simp_all add: manager0_def cfg0_def)
  show ?thesis
    using connectWithRetry_exhausts[OF h1 h2, of world0]
    by (simp add: n world0_def numeral_2_eq_2)
qed

lemma slept_schedule: "slept (schedule es) = slept es"
proof (induction es)
  case Nil
  show ?case by simp
next
  case (Cons e es)
  then show ?case by (cases e) (simp_all add: slept_def)
qed

lemma slept_pattern: "slept (concat (replicate m [Dial, Sleep d]) @ [Dial]) = int m * max 0 d"
  by (induction m) (simp_all add: slept_def algebra_simps)

text \<open>
  C5. When the attempts \<open>1 .. k - 1\<close> fail and attempt \<open>k \<le> N\<close> succeeds,
  \<^verbatim>\<open>connectWithRetry\<close> returns no error after \<open>k\<close> attempts with a sleep of the
  configured delay after each of the \<open>k - 1\<close> failures, so \<open>(k - 1) * delay\<close> is
  spent asleep, and \<^verbatim>\<open>RetryCount\<close> is 0 and \<^verbatim>\<open>IsHealthy\<close> is set.
\<close>

theorem connectWithRetry_succeeds_at:
  assumes k: "1 \<le> k" "int k \<le> DatabaseRetryAttempts (config dm)"
    and fail: "\<forall>i. 1 \<le> i \<and> i < k \<longrightarrow> dial_error (config dm) (target (dialled w + i)) \<noteq> None"
    and ok: "dial_error (config dm) (target (dialled w + k)) = None"
  shows "\<exists>dm' w'. connectWithRetry target dm w = Inr (None, dm', w')
           \<and> RetryCount (healthStatus dm') = 0
           \<and> IsHealthy (healthStatus dm')
           \<and> dialled w' = dialled w + k
           \<and> schedule (since w w') =
                concat (replicate (k - 1) [Dial, Sleep (DatabaseRetryDelay (config dm))]) @ [Dial]
           \<and> slept (since w w') = int (k - 1) * max 0 (DatabaseRetryDelay (config dm))"
proof -
  define m where "m = k - 1"
  have km: "k = Suc m" using k(1) by (simp add: m_def)
  have p1: "\<forall>i. 1 \<le> i \<and> i \<le> m \<longrightarrow> dial_error (config dm) (target (dialled w + i)) \<noteq> None"
    using fail km by auto
  have p2: "1 + int m \<le> DatabaseRetryAttempts (config dm)" using k(2) km by simp
  from retry_prefix[where dm=dm and w=w and m=m and a=1 and le=None and target=target, OF p1 p2]
  obtain le1 dm1 w1 es1 where
    r1: "connectWithRetry_from 1 None target dm w = connectWithRetry_from (1 + int m) le1 target dm1 w1"
    and c1: "config dm1 = config dm" and d1: "dialled w1 = dialled w + m"
    and t1: "trace w1 = trace w @ es1"
    and s1: "schedule es1 = concat (replicate m [Dial, Sleep (DatabaseRetryDelay (config dm))])"
    by blast
  have ok1: "dial_error (config dm1) (target (Suc (dialled w1))) = None"
    using ok by (simp add: c1 d1 km)
  have a1: "1 + int m \<le> DatabaseRetryAttempts (config dm1)" using p2 c1 by simp
  from retry_hit[where dm=dm1 and w=w1 and target=target and a="1 + int m" and le=le1, OF ok1 a1]
  obtain dm2 w2 es2 where
    r2: "connectWithRetry_from (1 + int m) le1 target dm1 w1 = Inr (None, dm2, w2)"
    and d2: "dialled w2 = Suc (dialled w1)" and t2: "trace w2 = trace w1 @ es2"
    and s2: "schedule es2 = [Dial]"
    and h2: "healthStatus dm2 = (healthStatus dm1)\<lparr>IsHealthy := True, RetryCount := 0\<rparr>"
    by blast
  have t: "trace w2 = trace w @ (es1 @ es2)" using t1 t2 by simp
  have s: "schedule (since w w2) =
      concat (replicate (k - 1) [Dial, Sleep (DatabaseRetryDelay (config dm))]) @ [Dial]"
    using s1 s2 by (simp add: since_append[OF t] m_def)
  have "slept (since w w2) = slept (schedule (since w w2))" by (simp add: slept_schedule)
  also have "\<dots> = int (k - 1) * max 0 (DatabaseRetryDelay (config dm))"
    unfolding s by (rule slept_pattern)
  finally have sl: "slept (since w w2) = int (k - 1) * max 0 (DatabaseRetryDelay (config dm))" .
  show ?thesis
  proof (intro exI conjI)
    show "connectWithRetry target dm w = Inr (None, dm2, w2)"
      unfolding connectWithRetry_def using r1 r2 by simp
    show "RetryCount (healthStatus dm2) = 0" by (simp add: h2)
    show "IsHealthy (healthStatus dm2)" by (simp add: h2)
    show "dialled w2 = dialled w + k" using d2 d1 km by simp
    show "schedule (since w w2) =
      concat (replicate (k - 1) [Dial, Sleep (DatabaseRetryDelay (config dm))]) @ [Dial]" by (rule s)
    show "slept (since w w2) = int (k - 1) * max 0 (DatabaseRetryDelay (config dm))" by (rule sl)
  qed
qed

theorem connectWithRetry_succeeds_at_witness:
  "\<exists>dm' w'. connectWithRetry (target_up_at 3) manager0 world0 = Inr (None, dm', w')
      \<and> RetryCount (healthStatus dm') = 0
      \<and> IsHealthy (healthStatus dm')
      \<and> dialled w' = 3
      \<and> schedule (since world0 w') = [Dial, Sleep Second, Dial, Sleep Second, Dial]
      \<and> slept (since world0 w') = 2 * Second"
proof -
  have h1: "1 \<le> (3::nat)" by simp
  have h2: "int 3 \<le> DatabaseRetryAttempts (config manager0)"
    by (simp add: manager0_def cfg0_def)
  have h3: "\<forall>i. 1 \<le> i \<and> i < 3 \<longrightarrow>
      dial_error (config manager0) (target_up_at 3 (dialled world0 + i)) \<noteq> None"
    by (simp add: dial_error_def target_up_at_def refused_def world0_def)
  have h4: "dial_error (config manager0) (target_up_at 3 (dialled world0 + 3)) = None"
    by (simp add: dial_error_def target_up_at_def accepted_def world0_def)
  have n: "DatabaseRetryDelay (config manager0) = Second" "max 0 Second = Second"
    by (simp_all add: manager0_def cfg0_def Second_def)
  show ?thesis
    using connectWithRetry_succeeds_at[OF h1 h2 h3 h4]
    by (simp add: n world0_def numeral_2_eq_2)
qed

lemma connect_general:
  "\<exists>r dm' w' es. connect target dm w = Inr (r, dm', w')
      \<and> config dm' = config dm \<and> trace w' = trace w @ es \<and> filter is_Go es = []
      \<and> healthStatus dm' = healthStatus dm
      \<and> (r = None \<longrightarrow> (\<exists>g h. db dm' = Some g \<and> DB g = Inr h)
            \<and> TotalConnections (metrics dm') = OpenConnections (metrics dm')
            \<and> MaxOpenConnections (metrics dm') = DatabaseMaxOpenConns (config dm)
            \<and> MaxIdleConnections (metrics dm') = DatabaseMaxIdleConns (config dm))"
proof (cases "dial_error (config dm) (target (Suc (dialled w)))")
  case None
  from connect_succeeds[where dm=dm and target=target and w=w, OF None]
  show ?thesis by force
next
  case (Some err)
  from connect_fails[where dm=dm and target=target and w=w, OF Some]
  show ?thesis by force
qed

lemma retry_general:
  "\<exists>r dm' w' es. connectWithRetry_from a le target dm w = Inr (r, dm', w')
      \<and> config dm' = config dm \<and> trace w' = trace w @ es \<and> filter is_Go es = []
      \<and> (case r of
            None \<Rightarrow> (\<exists>g h. db dm' = Some g \<and> DB g = Inr h)
              \<and> TotalConnections (metrics dm') = OpenConnections (metrics dm')
              \<and> MaxOpenConnections (metrics dm') = DatabaseMaxOpenConns (config dm)
              \<and> MaxIdleConnections (metrics dm') = DatabaseMaxIdleConns (config dm)
              \<and> IsHealthy (healthStatus dm') \<and> RetryCount (healthStatus dm') = 0
              \<and> LastCheck (healthStatus dm') = LastCheck (healthStatus dm)
          | Some e \<Rightarrow> Type e = Some ErrorTypeDatabase)"
proof (induction n \<equiv> "nat (DatabaseRetryAttempts (config dm) + 1 - a)" arbitrary: a le dm w)
  case 0
  then have "DatabaseRetryAttempts (config dm) < a" by simp
  from retry_exit[OF this, of le target w] obtain e where
    "connectWithRetry_from a le target dm w = Inr (Some e, dm, w)" "Type e = Some ErrorTypeDatabase"
    by blast
  then show ?case by (intro exI[of _ "Some e"] exI[of _ dm] exI[of _ w] exI[of _ "[]"]) simp
next
  case (Suc n)
  then have le: "a \<le> DatabaseRetryAttempts (config dm)" by simp
  from connect_general[of target dm w] obtain r dm1 w1 es1 where
    c: "connect target dm w = Inr (r, dm1, w1)" and c1: "config dm1 = config dm"
    and t1: "trace w1 = trace w @ es1" and g1: "filter is_Go es1 = []"
    and h1: "healthStatus dm1 = healthStatus dm"
    and ok: "r = None \<longrightarrow> (\<exists>g h. db dm1 = Some g \<and> DB g = Inr h)
            \<and> TotalConnections (metrics dm1) = OpenConnections (metrics dm1)
            \<and> MaxOpenConnections (metrics dm1) = DatabaseMaxOpenConns (config dm)
            \<and> MaxIdleConnections (metrics dm1) = DatabaseMaxIdleConns (config dm)"
    by blast
  show ?case
  proof (cases r)
    case None
    define dm2 where "dm2 = dm1\<lparr>healthStatus := (healthStatus dm1)\<lparr>IsHealthy := True, RetryCount := 0\<rparr>\<rparr>"
    define w2 where "w2 = emit [WriteHealth ''IsHealthy'', WriteHealth ''RetryCount''] w1"
    have u: "connectWithRetry_from a le target dm w = Inr (None, dm2, w2)"
      using le c None by (subst connectWithRetry_from.simps) (simp add: dm2_def w2_def)
    show ?thesis
      apply (rule exI[of _ None], rule exI[of _ dm2], rule exI[of _ w2],
             rule exI[of _ "es1 @ [WriteHealth ''IsHealthy'', WriteHealth ''RetryCount'']"])
      using u ok None c1 t1 g1 h1 by (simp add: dm2_def w2_def)
  next
    case (Some err)
    define dm2 where "dm2 = dm1\<lparr>healthStatus := (healthStatus dm1)\<lparr>RetryCount := a\<rparr>\<rparr>"
    define w3 where "w3 = (if a < DatabaseRetryAttempts (config dm2)
         then time_Sleep (DatabaseRetryDelay (config dm2)) (emit [WriteHealth ''RetryCount''] w1)
         else emit [WriteHealth ''RetryCount''] w1)"
    have u: "connectWithRetry_from a le target dm w
        = connectWithRetry_from (a + 1) (Some (LibError err)) target dm2 w3"
      using le c Some by (subst connectWithRetry_from.simps) (simp add: dm2_def w3_def Let_def)
    have c2: "config dm2 = config dm" by (simp add: dm2_def c1)
    have n: "n = nat (DatabaseRetryAttempts (config dm2) + 1 - (a + 1))"
      using Suc.hyps(2) c2 by simp
    obtain es3 where t3: "trace w3 = trace w @ es3" and g3: "filter is_Go es3 = []"
    proof (cases "a < DatabaseRetryAttempts (config dm2)")
      case True
      then have "trace w3 = trace w @ (es1 @ [WriteHealth ''RetryCount'', Sleep (DatabaseRetryDelay (config dm2))])"
        by (simp add: w3_def t1)
      moreover have "filter is_Go (es1 @ [WriteHealth ''RetryCount'', Sleep (DatabaseRetryDelay (config dm2))]) = []"
        using g1 by simp
      ultimately show ?thesis by (rule that)
    next
      case False
      then have "trace w3 = trace w @ (es1 @ [WriteHealth ''RetryCount''])"
        by (simp add: w3_def t1)
      moreover have "filter is_Go (es1 @ [WriteHealth ''RetryCount'']) = []"
        using g1 by simp
      ultimately show ?thesis by (rule that)
    qed
    from Suc.hyps(1)[OF n, of "Some (LibError err)" w3] obtain r' dm' w' es where
      r: "connectWithRetry_from (a + 1) (Some (LibError err)) target dm2 w3 = Inr (r', dm', w')"
      and c': "config dm' = config dm2" and t': "trace w' = trace w3 @ es"
      and g': "filter is_Go es = []"
      and k: "(case r' of
            None \<Rightarrow> (\<exists>g h. db dm' = Some g \<and> DB g = Inr h)
              \<and> TotalConnections (metrics dm') = OpenConnections (metrics dm')
              \<and> MaxOpenConnections (metrics dm') = DatabaseMaxOpenConns (config dm2)
              \<and> MaxIdleConnections (metrics dm') = DatabaseMaxIdleConns (config dm2)
              \<and> IsHealthy (healthStatus dm') \<and> RetryCount (healthStatus dm') = 0
              \<and> LastCheck (healthStatus dm') = LastCheck (healthStatus dm2)
          | Some e \<Rightarrow> Type e = Some ErrorTypeDatabase)"
      by blast
    have l2: "LastCheck (healthStatus dm2) = LastCheck (healthStatus dm)" by (simp add: dm2_def h1)
    show ?thesis
      apply (rule exI[of _ r'], rule exI[of _ dm'], rule exI[of _ w'], rule exI[of _ "es3 @ es"])
      using u r c' c2 t' t3 g' g3 k l2 by (simp split: option.splits)
  qed
qed

section \<open>Construction\<close>

lemma retry_all_fail:
  assumes fail: "\<forall>i. 1 \<le> i \<and> int i \<le> DatabaseRetryAttempts (config dm)
                 \<longrightarrow> dial_error (config dm) (target (dialled w + i)) \<noteq> None"
  shows "\<exists>e dm' w' es. connectWithRetry target dm w = Inr (Some e, dm', w')
           \<and> Type e = Some ErrorTypeDatabase \<and> trace w' = trace w @ es \<and> filter is_Go es = []"
proof (cases "1 \<le> DatabaseRetryAttempts (config dm)")
  case True
  from retry_exhausts[where dm=dm and w=w and target=target and le=None, OF True fail]
  show ?thesis unfolding connectWithRetry_def by blast
next
  case False
  then have "DatabaseRetryAttempts (config dm) < 1" by simp
  from retry_exit[OF this, of None target w] obtain e where
    "connectWithRetry_from 1 None target dm w = Inr (Some e, dm, w)" "Type e = Some ErrorTypeDatabase"
    by blast
  then show ?thesis
    unfolding connectWithRetry_def
    by (intro exI[of _ e] exI[of _ dm] exI[of _ w] exI[of _ "[]"]) simp
qed

text \<open>
  C4. When every configured connection attempt fails, \<^verbatim>\<open>NewDatabaseManager\<close> returns
  a database error and no manager, and starts neither the health-check routine nor the
  metrics routine.
\<close>

theorem NewDatabaseManager_fatal:
  assumes "\<forall>i. 1 \<le> i \<and> int i \<le> DatabaseRetryAttempts cfg
             \<longrightarrow> dial_error cfg (target (dialled w + i)) \<noteq> None"
  shows "\<exists>e w'. NewDatabaseManager cfg target w = Inr (Inl e, w')
           \<and> Type e = Some ErrorTypeDatabase
           \<and> filter is_Go (since w w') = []"
proof -
  define manager where "manager = \<lparr>db = None, config = cfg,
                      healthStatus = \<lparr>IsHealthy = False, LastCheck = zeroTime, LastError = [],
                                      ResponseTime = 0, RetryCount = 0\<rparr>,
                      metrics = \<lparr>TotalConnections = 0, OpenConnections = 0, IdleConnections = 0,
                                 InUseConnections = 0, WaitCount = 0, WaitDuration = 0,
                                 MaxOpenConnections = 0, MaxIdleConnections = 0\<rparr>\<rparr>"
  have cfg: "config manager = cfg" by (simp add: manager_def)
  have "\<forall>i. 1 \<le> i \<and> int i \<le> DatabaseRetryAttempts (config manager)
             \<longrightarrow> dial_error (config manager) (target (dialled w + i)) \<noteq> None"
    using assms by (simp add: cfg)
  from retry_all_fail[where dm=manager and w=w and target=target, OF this]
  obtain e dm' w' es where
    r: "connectWithRetry target manager w = Inr (Some e, dm', w')"
    and t: "trace w' = trace w @ es" and g: "filter is_Go es = []"
    by blast
  have "NewDatabaseManager cfg target w =
      Inr (Inl (WithResource ''database''
                     (WithOperation ''initialize_database_manager''
                       (DatabaseError ''Failed to initialize database manager'' (Some e)))), w')"
    using r by (simp add: NewDatabaseManager_def manager_def)
  then show ?thesis using g by (simp add: since_append[OF t])
qed

theorem NewDatabaseManager_fatal_witness:
  "\<exists>e w'. NewDatabaseManager cfg0 target_down world0 = Inr (Inl e, w')
      \<and> Type e = Some ErrorTypeDatabase
      \<and> filter is_Go (since world0 w') = []"
proof -
  have "\<forall>i. 1 \<le> i \<and> int i \<le> DatabaseRetryAttempts cfg0
             \<longrightarrow> dial_error cfg0 (target_down (dialled world0 + i)) \<noteq> None"
    by (simp add: dial_error_def target_down_def refused_def)
  from NewDatabaseManager_fatal[OF this] show ?thesis .
qed

lemma NewDatabaseManager_constructed:
  assumes "NewDatabaseManager cfg target w = Inr (Inr dm, w1)"
  shows "config dm = cfg \<and> (\<exists>g h. db dm = Some g \<and> DB g = Inr h)
     \<and> TotalConnections (metrics dm) = OpenConnections (metrics dm)
     \<and> MaxOpenConnections (metrics dm) = DatabaseMaxOpenConns cfg
     \<and> MaxIdleConnections (metrics dm) = DatabaseMaxIdleConns cfg
     \<and> IsHealthy (healthStatus dm) \<and> RetryCount (healthStatus dm) = 0
     \<and> LastCheck (healthStatus dm) = zeroTime
     \<and> (\<exists>es. trace w1 = trace w @ es @ [Go startHealthCheck, Go startMetricsCollection]
              \<and> filter is_Go es = [])"
proof -
  define manager where "manager = \<lparr>db = None, config = cfg,
                      healthStatus = \<lparr>IsHealthy = False, LastCheck = zeroTime, LastError = [],
                                      ResponseTime = 0, RetryCount = 0\<rparr>,
                      metrics = \<lparr>TotalConnections = 0, OpenConnections = 0, IdleConnections = 0,
                                 InUseConnections = 0, WaitCount = 0, WaitDuration = 0,
                                 MaxOpenConnections = 0, MaxIdleConnections = 0\<rparr>\<rparr>"
  have cfg: "config manager = cfg" and lc: "LastCheck (healthStatus manager) = zeroTime"
    by (simp_all add: manager_def)
  from retry_general[of 1 None target manager w] obtain r dm' w' es where
    r: "connectWithRetry target manager w = Inr (r, dm', w')"
    and c: "config dm' = config manager" and t: "trace w' = trace w @ es"
    and g: "filter is_Go es = []"
    and k: "(case r of
            None \<Rightarrow> (\<exists>g h. db dm' = Some g \<and> DB g = Inr h)
              \<and> TotalConnections (metrics dm') = OpenConnections (metrics dm')
              \<and> MaxOpenConnections (metrics dm') = DatabaseMaxOpenConns (config manager)
              \<and> MaxIdleConnections (metrics dm') = DatabaseMaxIdleConns (config manager)
              \<and> IsHealthy (healthStatus dm') \<and> RetryCount (healthStatus dm') = 0
              \<and> LastCheck (healthStatus dm') = LastCheck (healthStatus manager)
          | Some e \<Rightarrow> Type e = Some ErrorTypeDatabase)"
    unfolding connectWithRetry_def by blast
  show ?thesis
  proof (cases r)
    case (Some e)
    with assms r show ?thesis by (simp add: NewDatabaseManager_def manager_def)
  next
    case None
    with assms r have dm: "dm = dm'"
      and w1: "w1 = emit [Go startHealthCheck, Go startMetricsCollection] w'"
      by (simp_all add: NewDatabaseManager_def manager_def)
    have "trace w1 = trace w @ es @ [Go startHealthCheck, Go startMetricsCollection]"
      by (simp add: w1 t)
    with g k None c cfg lc dm show ?thesis by auto
  qed
qed

section \<open>Histories of a constructed manager\<close>

lemma lock_scan_append:
  "lock_scan held (xs @ ys) = (case lock_scan held xs of None \<Rightarrow> None | Some h \<Rightarrow> lock_scan h ys)"
  by (induction held xs rule: lock_scan.induct) simp_all

lemma step_invariant:
  assumes "db dm = Some g" "DB g = Inr h"
  shows "\<exists>dm' w' es. step c dm w = Inr (dm', w')
      \<and> db dm' = db dm \<and> config dm' = config dm
      \<and> trace w' = trace w @ es \<and> lock_scan False es = Some False
      \<and> (TotalConnections (metrics dm) = OpenConnections (metrics dm)
            \<longrightarrow> TotalConnections (metrics dm') = OpenConnections (metrics dm'))
      \<and> (MaxOpenConnections (metrics dm) = DatabaseMaxOpenConns (config dm)
            \<longrightarrow> MaxOpenConnections (metrics dm') = DatabaseMaxOpenConns (config dm))
      \<and> (MaxIdleConnections (metrics dm) = DatabaseMaxIdleConns (config dm)
            \<longrightarrow> MaxIdleConnections (metrics dm') = DatabaseMaxIdleConns (config dm))"
proof (cases c)
  case (Call_HealthCheck lg ping)
  then show ?thesis using assms
    by (cases "snd (ping (DatabaseHealthTimeout (config dm)))")
       (simp_all add: HealthCheck_def updateHealthStatus_def getHealthStatus_def Let_def)
next
  case Call_FastHealthCheck
  then show ?thesis by (simp add: FastHealthCheck_def)
next
  case (Call_updateMetrics stats)
  then show ?thesis using assms by (simp add: updateMetrics_def)
next
  case Call_GetMetrics
  then show ?thesis by (simp add: GetMetrics_def)
next
  case Call_GetHealthStatus
  then show ?thesis by (simp add: GetHealthStatus_def getHealthStatus_def)
next
  case (Call_Close closing)
  then show ?thesis using assms by (cases closing) (simp_all add: Close_def)
next
  case (Wait n)
  then show ?thesis by simp
qed

lemma run_invariant:
  assumes "db dm = Some g" "DB g = Inr h"
  shows "\<exists>dm' w' es. run cs dm w = Inr (dm', w')
      \<and> db dm' = db dm \<and> config dm' = config dm
      \<and> trace w' = trace w @ es \<and> lock_scan False es = Some False
      \<and> (TotalConnections (metrics dm) = OpenConnections (metrics dm)
            \<longrightarrow> TotalConnections (metrics dm') = OpenConnections (metrics dm'))
      \<and> (MaxOpenConnections (metrics dm) = DatabaseMaxOpenConns (config dm)
            \<longrightarrow> MaxOpenConnections (metrics dm') = DatabaseMaxOpenConns (config dm))
      \<and> (MaxIdleConnections (metrics dm) = DatabaseMaxIdleConns (config dm)
            \<longrightarrow> MaxIdleConnections (metrics dm') = DatabaseMaxIdleConns (config dm))"
  using assms
proof (induction cs arbitrary: dm w)
  case Nil
  show ?case by (intro exI[of _ dm] exI[of _ w] exI[of _ "[]"]) simp
next
  case (Cons c cs)
  from step_invariant[OF Cons.prems, of c w] obtain dm1 w1 es1 where
    s: "step c dm w = Inr (dm1, w1)" and d1: "db dm1 = db dm" and c1: "config dm1 = config dm"
    and t1: "trace w1 = trace w @ es1" and l1: "lock_scan False es1 = Some False"
    and m1: "TotalConnections (metrics dm) = OpenConnections (metrics dm)
            \<longrightarrow> TotalConnections (metrics dm1) = OpenConnections (metrics dm1)"
       "MaxOpenConnections (metrics dm) = DatabaseMaxOpenConns (config dm)
            \<longrightarrow> MaxOpenConnections (metrics dm1) = DatabaseMaxOpenConns (config dm)"
       "MaxIdleConnections (metrics dm) = DatabaseMaxIdleConns (config dm)
            \<longrightarrow> MaxIdleConnections (metrics dm1) = DatabaseMaxIdleConns (config dm)"
    by blast
  have p: "db dm1 = Some g" using d1 Cons.prems(1) by simp
  from Cons.IH[OF p Cons.prems(2), of w1] obtain dm2 w2 es2 where
    r: "run cs dm1 w1 = Inr (dm2, w2)" and d2: "db dm2 = db dm1" and c2: "config dm2 = config dm1"
    and t2: "trace w2 = trace w1 @ es2" and l2: "lock_scan False es2 = Some False"
    and m2: "TotalConnections (metrics dm1) = OpenConnections (metrics dm1)
            \<longrightarrow> TotalConnections (metrics dm2) = OpenConnections (metrics dm2)"
       "MaxOpenConnections (metrics dm1) = DatabaseMaxOpenConns (config dm1)
            \<longrightarrow> MaxOpenConnections (metrics dm2) = DatabaseMaxOpenConns (config dm1)"
       "MaxIdleConnections (metrics dm1) = DatabaseMaxIdleConns (config dm1)
            \<longrightarrow> MaxIdleConnections (metrics dm2) = DatabaseMaxIdleConns (config dm1)"
    by blast
  show ?case
    apply (rule exI[of _ dm2], rule exI[of _ w2], rule exI[of _ "es1 @ es2"])
    using s r d1 d2 c1 c2 t1 t2 l1 l2 m1 m2 by (simp add: lock_scan_append)
qed

lemma connect_up:
  "connect (target_up_at (Suc 0)) manager0 world0 =
     Inr (None, manager1\<lparr>healthStatus := healthStatus manager0\<rparr>,
          \<lparr>now = 3000, trace = [Dial, SetPool 7 25 5 (300 * Second) (60 * Second), Ping 7 (30 * Second),
                      Lock, Stats 7, WriteMetrics, Unlock], dialled = 1\<rparr>)"
  by (simp add: connect_def updateMetrics_def target_up_at_def accepted_def manager0_def
      manager1_def world0_def cfg0_def emit_def elapse_def)

lemma connectWithRetry_up:
  "connectWithRetry (target_up_at (Suc 0)) manager0 world0 =
     Inr (None, manager1, \<lparr>now = 3000,
             trace = [Dial, SetPool 7 25 5 (300 * Second) (60 * Second), Ping 7 (30 * Second),
                      Lock, Stats 7, WriteMetrics, Unlock,
                      WriteHealth ''IsHealthy'', WriteHealth ''RetryCount''],
             dialled = 1\<rparr>)"
  unfolding connectWithRetry_def
proof -
  have N: "(1::int) \<le> DatabaseRetryAttempts (config manager0)"
    by (simp add: manager0_def cfg0_def)
  show "connectWithRetry_from 1 None (target_up_at (Suc 0)) manager0 world0 =
     Inr (None, manager1, \<lparr>now = 3000,
             trace = [Dial, SetPool 7 25 5 (300 * Second) (60 * Second), Ping 7 (30 * Second),
                      Lock, Stats 7, WriteMetrics, Unlock,
                      WriteHealth ''IsHealthy'', WriteHealth ''RetryCount''],
             dialled = 1\<rparr>)"
    by (subst connectWithRetry_from.simps, simp only: N if_True connect_up)
       (simp add: manager0_def manager1_def emit_def)
qed

lemma constructed1: "NewDatabaseManager cfg0 (target_up_at 1) world0 = Inr (Inr manager1, world1)"
  using connectWithRetry_up
  by (simp add: NewDatabaseManager_def manager0_def world1_def emit_def)

text \<open>
  C10. \<^verbatim>\<open>updateMetrics\<close> stores the same statistic of the pool, its number of open
  connections, in \<^verbatim>\<open>TotalConnections\<close> and in \<^verbatim>\<open>OpenConnections\<close>; whatever happens to a
  constructed manager, the two fields are equal in what \<^verbatim>\<open>GetMetrics\<close> returns.
\<close>

theorem TotalConnections_is_OpenConnections:
  assumes "NewDatabaseManager cfg target w = Inr (Inr dm, w1)"
  shows "\<exists>dm' w'. run cs dm w1 = Inr (dm', w')
           \<and> TotalConnections (fst (GetMetrics dm' w')) = OpenConnections (fst (GetMetrics dm' w'))
           \<and> (\<exists>dm'' w''. updateMetrics stats dm' w' = Inr (dm'', w'')
                 \<and> TotalConnections (fst (GetMetrics dm'' w'')) = stats_OpenConnections stats
                 \<and> OpenConnections (fst (GetMetrics dm'' w'')) = stats_OpenConnections stats)"
proof -
  from NewDatabaseManager_constructed[OF assms] obtain g h where
    d: "db dm = Some g" "DB g = Inr h"
    and m: "TotalConnections (metrics dm) = OpenConnections (metrics dm)"
    by blast
  from run_invariant[OF d, of cs w1] m obtain dm' w' where
    r: "run cs dm w1 = Inr (dm', w')" and d': "db dm' = db dm"
    and m': "TotalConnections (metrics dm') = OpenConnections (metrics dm')"
    by blast
  show ?thesis
    apply (rule exI[of _ dm'], rule exI[of _ w'])
    using r m' d' d by (simp add: GetMetrics_def updateMetrics_def)
qed

theorem TotalConnections_is_OpenConnections_witness:
  "\<exists>dm' w'. run [Wait 10000000000, Call_updateMetrics busy, Call_GetMetrics] manager1 world1 = Inr (dm', w')
      \<and> TotalConnections (fst (GetMetrics dm' w')) = 12
      \<and> OpenConnections (fst (GetMetrics dm' w')) = 12"
  using TotalConnections_is_OpenConnections[OF constructed1,
          of "[Wait 10000000000, Call_updateMetrics busy, Call_GetMetrics]" busy]
  by (simp add: updateMetrics_def GetMetrics_def manager1_def busy_def)

text \<open>
  C3. Whatever happens to a constructed manager, \<^verbatim>\<open>GetMetrics\<close> returns the contents of
  the metrics structure (a structure of numbers, so the result shares nothing with the
  manager), and its \<^verbatim>\<open>MaxOpenConnections\<close> and \<^verbatim>\<open>MaxIdleConnections\<close> are the pool
  bounds of the configuration.
\<close>

theorem GetMetrics_pool_bounds:
  assumes "NewDatabaseManager cfg target w = Inr (Inr dm, w1)"
  shows "\<exists>dm' w'. run cs dm w1 = Inr (dm', w')
           \<and> config dm' = cfg
           \<and> fst (GetMetrics dm' w') = metrics dm'
           \<and> MaxOpenConnections (fst (GetMetrics dm' w')) = DatabaseMaxOpenConns cfg
           \<and> MaxIdleConnections (fst (GetMetrics dm' w')) = DatabaseMaxIdleConns cfg"
proof -
  from NewDatabaseManager_constructed[OF assms] obtain g h where
    d: "db dm = Some g" "DB g = Inr h" and c: "config dm = cfg"
    and m: "MaxOpenConnections (metrics dm) = DatabaseMaxOpenConns cfg"
           "MaxIdleConnections (metrics dm) = DatabaseMaxIdleConns cfg"
    by blast
  from run_invariant[OF d, of cs w1] m c obtain dm' w' where
    r: "run cs dm w1 = Inr (dm', w')" and c': "config dm' = config dm"
    and m': "MaxOpenConnections (metrics dm') = DatabaseMaxOpenConns cfg"
            "MaxIdleConnections (metrics dm') = DatabaseMaxIdleConns cfg"
    by auto
  show ?thesis
    apply (rule exI[of _ dm'], rule exI[of _ w'])
    using r m' c c' by (simp add: GetMetrics_def)
qed

theorem GetMetrics_pool_bounds_witness:
  "\<exists>dm' w'. run [Call_GetMetrics, Wait 10000000000, Call_updateMetrics busy] manager1 world1 = Inr (dm', w')
      \<and> config dm' = cfg0
      \<and> MaxOpenConnections (fst (GetMetrics dm' w')) = 25
      \<and> MaxIdleConnections (fst (GetMetrics dm' w')) = 5"
proof -
  have bounds: "DatabaseMaxOpenConns cfg0 = 25" "DatabaseMaxIdleConns cfg0 = 5"
    by (simp_all add: cfg0_def)
  from GetMetrics_pool_bounds[OF constructed1,
          of "[Call_GetMetrics, Wait 10000000000, Call_updateMetrics busy]"]
  show ?thesis unfolding bounds by blast
qed

section \<open>Closing\<close>

text \<open>
  C9. On a manager that holds a connection, \<^verbatim>\<open>Close\<close> closes the pool once and
  returns no error when the pool closes without error; it returns a database error
  around the first error met: the error of the handle lookup (then the pool is not
  closed) or the error of closing.
\<close>

theorem Close_releases:
  assumes "db dm = Some g"
  shows "case DB g of
           Inl err \<Rightarrow>
             (\<exists>e. fst (Close closing dm w) = Some e \<and> Type e = Some ErrorTypeDatabase
                  \<and> Cause e = Some (LibError err))
             \<and> filter is_CloseConn (since w (snd (Close closing dm w))) = []
         | Inr sqlDB \<Rightarrow>
             filter is_CloseConn (since w (snd (Close closing dm w))) = [CloseConn sqlDB]
             \<and> (case closing of
                   None \<Rightarrow> fst (Close closing dm w) = None
                 | Some err \<Rightarrow>
                     (\<exists>e. fst (Close closing dm w) = Some e \<and> Type e = Some ErrorTypeDatabase
                          \<and> Cause e = Some (LibError err)))"
  using assms
  by (simp add: Close_def since_def split: sum.splits option.splits)

theorem Close_releases_witness:
  "fst (Close None manager1 world1) = None
   \<and> filter is_CloseConn (since world1 (snd (Close None manager1 world1))) = [CloseConn 7]
   \<and> (\<exists>e. fst (Close (Some ''driver: bad connection'') manager1 world1) = Some e
          \<and> Type e = Some ErrorTypeDatabase
          \<and> Cause e = Some (LibError ''driver: bad connection''))"
proof -
  have d: "db manager1 = Some (GormDB (Inr 7))" by (simp add: manager1_def)
  from Close_releases[OF d, of None world1]
       Close_releases[OF d, of "Some ''driver: bad connection''" world1]
  show ?thesis by simp
qed

section \<open>Health checks, fast and full\<close>

lemma Sub_small: "0 \<le> d \<Longrightarrow> d < 10 * Second \<Longrightarrow> Sub (t + d) t = d"
  by (simp add: Sub_def Second_def maxDuration_def minDuration_def)

lemma Sub_stale: "u + 10 * Second \<le> t \<Longrightarrow> \<not> Sub t u < 10 * Second"
  by (simp add: Sub_def Let_def Second_def maxDuration_def minDuration_def)

lemma HealthCheck_result:
  assumes "HealthCheck lg ping dm w = Inr (hs, dm1, w1)"
  shows "healthStatus dm1 = hs" and "LastCheck hs = now w1" and "now w \<le> now w1"
  using assms
  by (auto simp: HealthCheck_def updateHealthStatus_def getHealthStatus_def Let_def
           split: option.splits sum.splits)

text \<open>
  C7. After a full health check, two calls of \<^verbatim>\<open>FastHealthCheck\<close> that both come less
  than 10 seconds after it return the status the full check recorded, and neither
  pings the database nor starts a goroutine.
\<close>

theorem FastHealthCheck_cached:
  assumes "HealthCheck lg ping dm w = Inr (hs, dm1, w1)"
    and "int t1 + int t2 < 10 * Second"
  shows "fst (FastHealthCheck dm1 (elapse t1 w1)) = hs
     \<and> fst (FastHealthCheck dm1 (elapse t2 (snd (FastHealthCheck dm1 (elapse t1 w1))))) = hs
     \<and> filter is_probe
         (since w1 (snd (FastHealthCheck dm1 (elapse t2 (snd (FastHealthCheck dm1 (elapse t1 w1)))))))
       = []"
proof -
  note hs = HealthCheck_result(1)[OF assms(1)] and lc = HealthCheck_result(2)[OF assms(1)]
  have a: "Sub (now w1 + int t1) (now w1) < 10 * Second"
    using assms(2) by (simp add: Sub_small)
  have f1: "FastHealthCheck dm1 (elapse t1 w1) = (hs, emit [RLock, RUnlock] (elapse t1 w1))"
    using a by (simp add: FastHealthCheck_def hs lc)
  have "Sub (now w1 + (int t1 + int t2)) (now w1) < 10 * Second"
    using assms(2) by (simp add: Sub_small)
  then have b: "Sub (now w1 + int t1 + int t2) (now w1) < 10 * Second"
    by (simp add: add.assoc)
  have f2: "FastHealthCheck dm1 (elapse t2 (emit [RLock, RUnlock] (elapse t1 w1)))
      = (hs, emit [RLock, RUnlock] (elapse t2 (emit [RLock, RUnlock] (elapse t1 w1))))"
    using b by (simp add: FastHealthCheck_def hs lc)
  show ?thesis by (simp add: f1 f2 since_def)
qed

lemma HealthCheck_ok1: "HealthCheck lag1 ping_ok manager1 world1 = Inr (status2, manager2, world2)"
  by (simp add: HealthCheck_def updateHealthStatus_def getHealthStatus_def manager1_def
      manager2_def status2_def world1_def world2_def ping_ok_def lag1_def cfg0_def Sub_def emit_def
      elapse_def maxDuration_def minDuration_def)

theorem FastHealthCheck_cached_witness:
  "fst (FastHealthCheck manager2 (elapse 3000000000 world2)) = status2
   \<and> fst (FastHealthCheck manager2
            (elapse 6000000000 (snd (FastHealthCheck manager2 (elapse 3000000000 world2))))) = status2
   \<and> filter is_probe
       (since world2 (snd (FastHealthCheck manager2
            (elapse 6000000000 (snd (FastHealthCheck manager2 (elapse 3000000000 world2)))))))
     = []"
proof -
  have t: "int 3000000000 + int 6000000000 < 10 * Second" by (simp add: Second_def)
  from FastHealthCheck_cached[OF HealthCheck_ok1 t] show ?thesis .
qed

text \<open>
  C8. When the cached status is 10 seconds old or older, \<^verbatim>\<open>FastHealthCheck\<close> starts
  \<^verbatim>\<open>HealthCheck\<close> as a goroutine and returns the cached status without waiting: the
  clock has not moved, no ping was made by the call, and the status of the probe, once
  it runs, carries a later \<^verbatim>\<open>LastCheck\<close> than the returned one.
\<close>

theorem FastHealthCheck_stale:
  assumes "LastCheck (healthStatus dm) + 10 * Second \<le> now w"
  shows "fst (FastHealthCheck dm w) = healthStatus dm
     \<and> since w (snd (FastHealthCheck dm w)) = [RLock, Go HealthCheck_routine, RUnlock]
     \<and> now (snd (FastHealthCheck dm w)) = now w
     \<and> (\<forall>lg ping hs' dm' w'.
          HealthCheck lg ping dm (snd (FastHealthCheck dm w)) = Inr (hs', dm', w')
            \<longrightarrow> LastCheck (fst (FastHealthCheck dm w)) < LastCheck hs')"
proof -
  have f: "FastHealthCheck dm w = (healthStatus dm, emit [RLock, Go HealthCheck_routine, RUnlock] w)"
    using Sub_stale[OF assms] by (simp add: FastHealthCheck_def)
  have "LastCheck (healthStatus dm) < LastCheck hs'"
    if "HealthCheck lg ping dm (emit [RLock, Go HealthCheck_routine, RUnlock] w) = Inr (hs', dm', w')"
    for lg ping hs' dm' w'
  proof -
    from HealthCheck_result(2,3)[OF that] have "LastCheck hs' = now w'" "now w \<le> now w'" by simp_all
    with assms show ?thesis by (simp add: Second_def)
  qed
  then show ?thesis by (simp add: f since_def)
qed

lemma HealthCheck_returns:
  assumes "db dm = Some g"
  shows "\<exists>hs dm' w'. HealthCheck lg ping dm w = Inr (hs, dm', w')"
  using assms
  by (simp add: HealthCheck_def updateHealthStatus_def getHealthStatus_def Let_def
      split: sum.splits option.splits)

theorem FastHealthCheck_stale_witness:
  "fst (FastHealthCheck manager1 world1) = healthStatus manager1
     \<and> since world1 (snd (FastHealthCheck manager1 world1)) = [RLock, Go HealthCheck_routine, RUnlock]
     \<and> now (snd (FastHealthCheck manager1 world1)) = now world1
     \<and> (\<exists>hs' dm' w'.
          HealthCheck lag1 ping_ok manager1 (snd (FastHealthCheck manager1 world1)) = Inr (hs', dm', w')
          \<and> LastCheck (fst (FastHealthCheck manager1 world1)) < LastCheck hs')"
proof -
  have stale: "LastCheck (healthStatus manager1) + 10 * Second \<le> now world1"
    by (simp add: manager1_def world1_def zeroTime_def Second_def)
  have "db manager1 = Some (GormDB (Inr 7))" by (simp add: manager1_def)
  from HealthCheck_returns[OF this, of lag1 ping_ok "snd (FastHealthCheck manager1 world1)"]
  obtain hs' dm' w' where
    "HealthCheck lag1 ping_ok manager1 (snd (FastHealthCheck manager1 world1)) = Inr (hs', dm', w')"
    by blast
  with FastHealthCheck_stale[OF stale] show ?thesis by blast
qed

section \<open>Failing health checks\<close>






section \<open>Lock discipline\<close>

text \<open>
  C2, as stated, fails for the connect-retry routine: \<^verbatim>\<open>connectWithRetry\<close> stores
  \<^verbatim>\<open>IsHealthy\<close> and \<^verbatim>\<open>RetryCount\<close> without taking \<^verbatim>\<open>mu\<close>. In the trace of a first
  attempt that succeeds the two stores come after the \<^verbatim>\<open>Unlock\<close> of \<^verbatim>\<open>updateMetrics\<close>.
\<close>

theorem lock_discipline_counterexample:
  "trace_of (connectWithRetry (target_up_at (Suc 0)) manager0 world0) =
     [Dial, SetPool 7 25 5 (300 * Second) (60 * Second), Ping 7 (30 * Second),
      Lock, Stats 7, WriteMetrics, Unlock,
      WriteHealth ''IsHealthy'', WriteHealth ''RetryCount'']
   \<and> \<not> guarded (trace_of (connectWithRetry (target_up_at (Suc 0)) manager0 world0))"
  by (simp add: connectWithRetry_up guarded_def)

text \<open>
  C2, amended. The stores of \<^verbatim>\<open>connectWithRetry\<close> all happen during construction,
  before \<^verbatim>\<open>NewDatabaseManager\<close> starts the two background routines and hands the manager
  out; in every history of the constructed manager each store into \<^verbatim>\<open>healthStatus\<close>
  happens while \<^verbatim>\<open>mu\<close> is held in exclusive mode.
\<close>

theorem lock_discipline:
  assumes "NewDatabaseManager cfg target w = Inr (Inr dm, w1)"
  shows "(\<exists>es. since w w1 = es @ [Go startHealthCheck, Go startMetricsCollection]
              \<and> filter is_Go es = [])
       \<and> (\<exists>dm' w'. run cs dm w1 = Inr (dm', w') \<and> guarded (since w1 w'))"
proof -
  from NewDatabaseManager_constructed[OF assms] obtain g h es where
    d: "db dm = Some g" "DB g = Inr h"
    and t: "trace w1 = trace w @ (es @ [Go startHealthCheck, Go startMetricsCollection])"
    and g: "filter is_Go es = []"
    by auto
  from run_invariant[OF d, of cs w1] obtain dm' w' es' where
    r: "run cs dm w1 = Inr (dm', w')" and t': "trace w' = trace w1 @ es'"
    and l: "lock_scan False es' = Some False"
    by blast
  have "guarded (since w1 w')" using l by (simp add: since_append[OF t'] guarded_def)
  with r g show ?thesis by (simp add: since_append[OF t])
qed

theorem lock_discipline_witness:
  "(\<exists>es. since world0 world1 = es @ [Go startHealthCheck, Go startMetricsCollection]
         \<and> filter is_Go es = [])
   \<and> (\<exists>dm' w'. run [Call_HealthCheck lag1 ping_ok, Call_FastHealthCheck] manager1 world1 = Inr (dm', w')
         \<and> guarded (since world1 w'))"
  using lock_discipline[OF constructed1] by blast

end
